theory Spec2Isabelle
  imports Main "HOL-Library.Sublist"
begin

section \<open>Local-GPU adapter: modeling/inference\_models/exllama/class.py\<close>

subsection \<open>Tokenizer wrappers installed by \<open>_post_load\<close>\<close>

text \<open>
  Python strings are modelled as \<open>string\<close>, a non-ASCII character standing for the bytes
  of its UTF-8 encoding. The word-boundary marker of sentencepiece is U+2581, that is the
  three bytes E2 96 81; \<open>startswith\<close> on whole characters agrees with the prefix order
  on their UTF-8 bytes.
\<close>

definition word_boundary_marker :: string where
  "word_boundary_marker = [CHR 0xE2, CHR 0x96, CHR 0x81]"

definition startswith :: "string \<Rightarrow> string \<Rightarrow> bool" where
  "startswith s p = prefix p s"

text \<open>
  \<open>has_prefix_space = {i for i, tok in enumerate(vocab) if tok.startswith(marker)}\<close>,
  where \<open>vocab\<close> is the list of the surface forms of the ids
  \<open>0 .. vocab_size - 1\<close>.
\<close>

definition has_prefix_space :: "string list \<Rightarrow> int set" where
  "has_prefix_space vocab =
     set (map (\<lambda>(i, tok). int i)
            (filter (\<lambda>(i, tok). startswith tok word_boundary_marker) (enumerate 0 vocab)))"

text \<open>
  The values \<open>decode\<close> is called with: a Python int, a tensor of dimension 0, a
  one-dimensional tensor, a list (or any other sized sequence), or \<open>None\<close>.
\<close>

datatype token_ids =
    PyInt int
  | Tensor0 int
  | Tensor1 "int list"
  | PyList "int list"
  | PyNone

text \<open>
  \<open>decode_wrapper\<close>. The library's \<open>decode\<close> is a parameter (it may raise, so it
  returns a sum); \<open>args\<close> stands for the positional and keyword arguments that are
  forwarded unchanged.
\<close>

definition decode_wrapper ::
  "(token_ids \<Rightarrow> 'a \<Rightarrow> 'e + string) \<Rightarrow> string list \<Rightarrow> token_ids \<Rightarrow> 'a \<Rightarrow> 'e + string" where
  "decode_wrapper original_decode vocab token_ids args =
     (let (first, token_ids') =
            (case token_ids of
               PyInt t \<Rightarrow> (Some t, PyList [t])
             | Tensor0 t \<Rightarrow> (Some t, PyList [t])
             | Tensor1 ts \<Rightarrow> (case ts of [] \<Rightarrow> (None, Tensor1 ts) | t # _ \<Rightarrow> (Some t, Tensor1 ts))
             | PyList ts \<Rightarrow> (case ts of [] \<Rightarrow> (None, PyList ts) | t # _ \<Rightarrow> (Some t, PyList ts))
             | PyNone \<Rightarrow> (None, PyNone))
      in case original_decode token_ids' args of
           Inl e \<Rightarrow> Inl e
         | Inr result \<Rightarrow>
             (case first of
                None \<Rightarrow> Inr result
              | Some f \<Rightarrow>
                  if f \<in> has_prefix_space vocab then Inr ('' '' @ result) else Inr result))"

text \<open>
  The values \<open>encode\<close> is called with: a \<open>str\<close>, or anything else (a list of
  strings, a list of ids), which the wrapper hands to the library untouched.
\<close>

datatype 'b encode_input = Str string | NotStr 'b

definition encode_wrapper ::
  "('b encode_input \<Rightarrow> 'a \<Rightarrow> 'e + int list) \<Rightarrow> 'b encode_input \<Rightarrow> 'a \<Rightarrow> 'e + int list" where
  "encode_wrapper original_encode text args =
     (case text of
        Str s \<Rightarrow>
          (case original_encode (Str ('','' @ s)) args of
             Inl e \<Rightarrow> Inl e
           | Inr result \<Rightarrow> Inr (drop 1 result))
      | NotStr other \<Rightarrow> original_encode (NotStr other) args)"

subsection \<open>A concrete tokenizer to run the wrappers on\<close>

text \<open>
  The library tokenizer is not part of the repository. To evaluate the wrappers on
  concrete inputs, the following small sentencepiece-like tokenizer is used as an
  instance of \<open>original_encode\<close>: it puts the word-boundary marker in front of the
  text (the "prefix space") and then repeatedly takes the longest vocabulary entry that
  the rest of the text starts with; a character no entry matches becomes the unknown id 0.
\<close>

fun longest_match :: "(string \<times> int) list \<Rightarrow> string \<Rightarrow> (string \<times> int) option" where
  "longest_match [] s = None"
| "longest_match ((tok, i) # vocab) s =
     (case longest_match vocab s of
        None \<Rightarrow> (if tok \<noteq> [] \<and> prefix tok s then Some (tok, i) else None)
      | Some (tok', i') \<Rightarrow>
          (if tok \<noteq> [] \<and> prefix tok s \<and> length tok' < length tok then Some (tok, i)
           else Some (tok', i')))"

fun greedy_pieces :: "(string \<times> int) list \<Rightarrow> nat \<Rightarrow> string \<Rightarrow> int list" where
  "greedy_pieces vocab 0 s = []"
| "greedy_pieces vocab (Suc n) s =
     (if s = [] then []
      else (case longest_match vocab s of
              None \<Rightarrow> 0 # greedy_pieces vocab n (drop 1 s)
            | Some (tok, i) \<Rightarrow> i # greedy_pieces vocab n (drop (length tok) s)))"

definition piece_encode :: "(string \<times> int) list \<Rightarrow> unit encode_input \<Rightarrow> unit \<Rightarrow> unit + int list" where
  "piece_encode vocab text args =
     (case text of
        Str s \<Rightarrow> Inr (greedy_pieces vocab (length (word_boundary_marker @ s)) (word_boundary_marker @ s))
      | NotStr u \<Rightarrow> Inl ())"

text \<open>
  Four entries of the LLaMA vocabulary with their ids: the anchor token "space comma"
  (1919), and the pieces \<open>a\<close>, \<open>b\<close> and \<open>ab\<close>.
\<close>

definition llama_pieces :: "(string \<times> int) list" where
  "llama_pieces =
     [(word_boundary_marker @ '','', 1919), (''a'', 29874), (''b'', 29890), (''ab'', 370)]"

text \<open>
  An instance of \<open>original_decode\<close> with the quirk the wrapper works around: a scalar
  id gives the raw surface form, a sequence gives the joined surface forms without the
  leading marker.
\<close>

definition surface :: "string list \<Rightarrow> int \<Rightarrow> string" where
  "surface vocab t = (if 0 \<le> t \<and> nat t < length vocab then vocab ! nat t else [])"

definition piece_decode :: "string list \<Rightarrow> token_ids \<Rightarrow> unit \<Rightarrow> unit + string" where
  "piece_decode vocab ids args =
     (let strip = (\<lambda>s. if startswith s word_boundary_marker
                         then drop (length word_boundary_marker) s else s)
      in case ids of
           PyInt t \<Rightarrow> Inr (surface vocab t)
         | Tensor0 t \<Rightarrow> Inr (surface vocab t)
         | Tensor1 ts \<Rightarrow> Inr (strip (concat (map (surface vocab) ts)))
         | PyList ts \<Rightarrow> Inr (strip (concat (map (surface vocab) ts)))
         | PyNone \<Rightarrow> Inl ())"

definition bob_vocab :: "string list" where
  "bob_vocab = [''<unk>'', word_boundary_marker @ ''Bob'', ''by'']"

subsection \<open>The generation loop of \<open>_raw_generate\<close>\<close>

text \<open>
  The state the loop works on. \<open>machine\<close> is the opaque state of the compute provider
  and of torch (key/value cache, random generator); \<open>manual_seed_calls\<close> records the
  calls of \<open>torch.manual_seed\<close>, \<open>post_token_gen_calls\<close> the sequences handed to
  the post-token hooks, and \<open>generated_tkns\<close> is
  \<open>utils.koboldai_vars.generated_tkns\<close>.
\<close>

record 'm gen_world =
  sequence :: "int list"
  machine :: 'm
  manual_seed_calls :: "int list"
  post_token_gen_calls :: "int list list"
  generated_tkns :: int

text \<open>
  The external operations. \<open>torch_manual_seed\<close> re-seeds the generator;
  \<open>cache_begin\<close> is the cache side of \<open>gen_begin_reuse\<close>; \<open>sample_token\<close>
  stands for one pass of: forward on the last token, suppression of the
  beginning-of-sequence logit, the warpers (which read \<open>gen_in\<close>), softmax,
  \<open>torch.multinomial\<close>, and the cache side of \<open>gen_accept_token\<close>. It gets the
  running sequence and \<open>gen_in\<close>, and returns the token with the new machine state.
\<close>

record 'm provider =
  torch_manual_seed :: "int \<Rightarrow> 'm \<Rightarrow> 'm"
  cache_begin :: "int list \<Rightarrow> 'm \<Rightarrow> 'm"
  sample_token :: "int list \<Rightarrow> int list \<Rightarrow> 'm \<Rightarrow> int \<times> 'm"

record generation_result =
  out_batches :: "int list list"
  prompt :: "int list"
  is_whole_generation :: bool
  single_line :: bool

text \<open>\<open>if seed: torch.manual_seed(seed)\<close>: the test is Python truthiness.\<close>

definition seed_truthy :: "int option \<Rightarrow> bool" where
  "seed_truthy seed = (case seed of None \<Rightarrow> False | Some s \<Rightarrow> s \<noteq> 0)"

definition apply_seed :: "'m provider \<Rightarrow> int option \<Rightarrow> 'm gen_world \<Rightarrow> 'm gen_world" where
  "apply_seed p seed w =
     (if seed_truthy seed
      then w\<lparr>machine := torch_manual_seed p (the seed) (machine w),
             manual_seed_calls := manual_seed_calls w @ [the seed]\<rparr>
      else w)"

text \<open>\<open>self.generator.gen_begin_reuse(gen_in)\<close>: the running sequence is the prompt.\<close>

definition gen_begin_reuse :: "'m provider \<Rightarrow> int list \<Rightarrow> 'm gen_world \<Rightarrow> 'm gen_world" where
  "gen_begin_reuse p gen_in w =
     w\<lparr>sequence := gen_in, machine := cache_begin p gen_in (machine w)\<rparr>"

text \<open>
  \<open>for i in range(max_new)\<close>, with the number of iterations left as the recursion
  argument. One iteration samples a token, appends it (\<open>gen_accept_token\<close>), calls the
  post-token hooks on the sequence, increments the counter, and breaks on the
  end-of-sequence id.
\<close>

fun gen_loop :: "'m provider \<Rightarrow> int \<Rightarrow> int list \<Rightarrow> nat \<Rightarrow> 'm gen_world \<Rightarrow> 'm gen_world" where
  "gen_loop p eos gen_in 0 w = w"
| "gen_loop p eos gen_in (Suc n) w =
     (let (token, m') = sample_token p (sequence w) gen_in (machine w);
          w' = w\<lparr>sequence := sequence w @ [token],
                 machine := m',
                 post_token_gen_calls := post_token_gen_calls w @ [sequence w @ [token]],
                 generated_tkns := generated_tkns w + 1\<rparr>
      in if token = eos then w' else gen_loop p eos gen_in n w')"

definition exllama_raw_generate ::
  "'m provider \<Rightarrow> int \<Rightarrow> int list \<Rightarrow> int \<Rightarrow> bool \<Rightarrow> int option \<Rightarrow> 'm gen_world
     \<Rightarrow> generation_result \<times> 'm gen_world" where
  "exllama_raw_generate p eos prompt_tokens max_new single_ln seed w =
     (let w1 = apply_seed p seed w;
          gen_in = prompt_tokens;
          w2 = gen_begin_reuse p gen_in w1;
          w3 = gen_loop p eos gen_in (nat max_new) w2;
          w4 = w3\<lparr>generated_tkns := max_new\<rparr>
      in (\<lparr>out_batches = [drop (length gen_in) (sequence w4)],
           prompt = prompt_tokens,
           is_whole_generation = True,
           single_line = single_ln\<rparr>, w4))"

text \<open>
  The tokens the sampler yields when it is run for \<open>n\<close> steps from a sequence and a
  machine state with every token accepted and no end-of-sequence test: the reference
  against which "sampled at step k" is read.
\<close>

fun sampled_tokens :: "'m provider \<Rightarrow> int list \<Rightarrow> nat \<Rightarrow> int list \<Rightarrow> 'm \<Rightarrow> int list" where
  "sampled_tokens p gen_in 0 seq m = []"
| "sampled_tokens p gen_in (Suc n) seq m =
     (let (token, m') = sample_token p seq gen_in m
      in token # sampled_tokens p gen_in n (seq @ [token]) m')"

text \<open>The part of a token list up to and including the first end-of-sequence id.\<close>

fun through_eos :: "int \<Rightarrow> int list \<Rightarrow> int list" where
  "through_eos eos [] = []"
| "through_eos eos (t # ts) = (if t = eos then [t] else t # through_eos eos ts)"

text \<open>A sampler and a start state to run the loop on.\<close>

definition count_provider :: "nat provider" where
  "count_provider =
     \<lparr>torch_manual_seed = (\<lambda>s m. nat s),
      cache_begin = (\<lambda>toks m. m),
      sample_token = (\<lambda>seq gen_in m. (int (m + length seq), Suc m))\<rparr>"

definition idle_world :: "nat gen_world" where
  "idle_world =
     \<lparr>sequence = [], machine = 7, manual_seed_calls = [], post_token_gen_calls = [],
      generated_tkns = 0\<rparr>"

section \<open>Remote-cluster adapter: modeling/inference\_models/horde.py\<close>

subsection \<open>Python values and exceptions\<close>

text \<open>
  What \<open>req.json()\<close> returns. A JSON object is an association list, read with
  \<open>map_of\<close>; numbers are integers (no operation of the adapter computes with them,
  it tests their truth value and stores them).
\<close>

datatype json =
    JNull
  | JBool bool
  | JNum int
  | JStr string
  | JList "json list"
  | JObj "(string \<times> json) list"

text \<open>
  The exceptions that leave the adapter. \<open>HordeException\<close> is the class the module
  defines; the others are raised by the interpreter (\<open>KeyError\<close>, \<open>TypeError\<close>,
  \<open>NameError\<close>), by \<open>req.json()\<close>, by \<open>np.array\<close> (\<open>ValueError\<close>), or by
  another collaborator (\<open>OtherError\<close>).
\<close>

datatype pyerror =
    HordeException string
  | KeyError string
  | TypeError
  | NameError string
  | JSONDecodeError
  | ValueError
  | OtherError string

text \<open>Truth value of a Python object, as \<open>if x\<close> and \<open>while not x\<close> read it.\<close>

fun truthy :: "json \<Rightarrow> bool" where
  "truthy JNull = False"
| "truthy (JBool b) = b"
| "truthy (JNum n) = (n \<noteq> 0)"
| "truthy (JStr s) = (s \<noteq> [])"
| "truthy (JList xs) = (xs \<noteq> [])"
| "truthy (JObj kvs) = (kvs \<noteq> [])"

text \<open>\<open>obj[key]\<close> with a string key: only a dict has one.\<close>

fun subscript :: "json \<Rightarrow> string \<Rightarrow> pyerror + json" where
  "subscript (JObj kvs) k = (case map_of kvs k of None \<Rightarrow> Inl (KeyError k) | Some v \<Rightarrow> Inr v)"
| "subscript j k = Inl TypeError"

text \<open>
  \<open>key in obj\<close> with a string key: key membership for a dict, element membership for
  a list, substring test for a string, \<open>TypeError\<close> for what is not iterable.
\<close>

fun py_in :: "string \<Rightarrow> json \<Rightarrow> pyerror + bool" where
  "py_in k (JObj kvs) = Inr (k \<in> set (map fst kvs))"
| "py_in k (JList xs) = Inr (JStr k \<in> set xs)"
| "py_in k (JStr s) = Inr (sublist k s)"
| "py_in k j = Inl TypeError"

text \<open>
  \<open>for x in obj\<close>: the elements of a list, the keys of a dict, the characters of a
  string.
\<close>

fun py_iter :: "json \<Rightarrow> pyerror + json list" where
  "py_iter (JList xs) = Inr xs"
| "py_iter (JObj kvs) = Inr (map JStr (remdups (map fst kvs)))"
| "py_iter (JStr s) = Inr (map (\<lambda>c. JStr [c]) s)"
| "py_iter j = Inl TypeError"

subsection \<open>HTTP, logging and the host's global variables\<close>

text \<open>
  A response of \<open>requests\<close>: \<open>json_body\<close> is \<open>None\<close> when the body is not JSON
  (\<open>req.json()\<close> raises \<open>JSONDecodeError\<close>). \<open>ok\<close> is false exactly for the
  status codes from 400 to 599.
\<close>

record response =
  status_code :: int
  resp_url :: string
  resp_text :: string
  json_body :: "json option"

definition ok :: "response \<Rightarrow> bool" where
  "ok req = (\<not> (400 \<le> status_code req \<and> status_code req < 600))"

text \<open>
  What one call of \<open>requests.get\<close> or \<open>requests.post\<close> does: it returns a response,
  raises \<open>requests.exceptions.ConnectionError\<close>, or raises something else.
\<close>

datatype http_outcome = Reply response | ConnectionError | Raised pyerror

datatype event =
    HttpPost string "(string \<times> string) list" json
  | HttpGet string "(string \<times> string) list"
  | Sleep nat

datatype log_level = LDebug | LInfo | LWarning | LError | LInitErr | LInitOk

text \<open>
  The observable state: the requests sent and the sleeps taken, in order; the log; and
  the fields of \<open>utils.koboldai_vars\<close> the adapter reads and writes.
\<close>

record horde_world =
  trace :: "event list"
  log :: "(log_level \<times> string) list"
  lastctx :: string
  max_length :: int
  cluster_requested_models :: "string list"
  horde_wait_time :: json
  horde_queue_position :: json
  horde_queue_size :: json

definition logger :: "log_level \<Rightarrow> string \<Rightarrow> horde_world \<Rightarrow> horde_world" where
  "logger lvl msg w = w\<lparr>log := log w @ [(lvl, msg)]\<rparr>"

definition send :: "event \<Rightarrow> horde_world \<Rightarrow> horde_world" where
  "send ev w = w\<lparr>trace := trace w @ [ev]\<rparr>"

text \<open>
  The collaborators: Python's \<open>repr\<close> of a parsed JSON value, the tokenizer,
  \<open>utils.decodenewlines\<close>, and what \<open>np.array\<close> does with rows of unequal
  length. \<open>tokenizer_encode\<close> gets whatever the response holds under \<open>"text"\<close>.
  \<open>np_array_ragged\<close> depends on the NumPy that is installed, and the repository pins
  none: from NumPy 1.24 on it raises \<open>ValueError\<close>, before that it builds a
  one-dimensional array of objects.
\<close>

record externals =
  py_repr :: "json \<Rightarrow> string"
  tokenizer_decode :: "int list \<Rightarrow> string"
  tokenizer_encode :: "json \<Rightarrow> pyerror + int list"
  decodenewlines :: "string \<Rightarrow> string"
  np_array_ragged :: "int list list \<Rightarrow> pyerror + int list list"

text \<open>\<open>str(x)\<close>, as \<open>format\<close> and f-strings apply it: a string is itself.\<close>

definition py_str :: "externals \<Rightarrow> json \<Rightarrow> string" where
  "py_str ext j = (case j of JStr s \<Rightarrow> s | _ \<Rightarrow> py_repr ext j)"

text \<open>
  \<open>GenerationSettings\<close>: the sampling parameters are carried as the JSON values they
  are sent as; \<open>top_k\<close> goes through \<open>int(...)\<close>.
\<close>

record gen_settings =
  rep_pen :: json
  rep_pen_slope :: json
  rep_pen_range :: json
  temp :: json
  top_p :: json
  top_k :: int
  top_a :: json
  tfs :: json
  typical :: json

record horde_backend =
  url :: string
  key :: string
  models :: "json list option"

subsection \<open>Messages\<close>

definition unavailable_msg :: string where
  "unavailable_msg = ''Horde unavailable. Please try again later''"

definition no_servers_msg :: string where
  "no_servers_msg = ''KoboldAI API Error: No available KoboldAI servers found in Horde to fulfil this request using the selected models or other properties.''"

definition no_standard_reply_msg :: string where
  "no_standard_reply_msg = ''KoboldAI API Error: Failed to get a standard reply from the Horde. Please check the console.''"

definition faulted_msg :: string where
  "faulted_msg = ''Horde Text generation faulted! Please try again.''"

definition quoted :: "string \<Rightarrow> string" where
  "quoted s = [CHR 0x27] @ s @ [CHR 0x27]"

definition client_agent :: string where
  "client_agent = ''KoboldAI:2.0.0:koboldai.org''"

subsection \<open>Model discovery: \<open>__init__\<close> and \<open>get_cluster_models\<close>\<close>

text \<open>
  \<open>emit\<close> is called twice in \<open>get_cluster_models\<close>, and the module binds no such
  name: it is neither imported nor defined in horde.py, and it is not a builtin. Python
  looks the name up when the call is evaluated, before the arguments, and raises
  \<open>NameError\<close>.
\<close>

definition emit :: "string \<Rightarrow> json \<Rightarrow> horde_world \<Rightarrow> (pyerror + unit) \<times> horde_world" where
  "emit ev payload w = (Inl (NameError ''emit''), w)"

text \<open>\<open>[{"text": en["name"], "value": en["name"]} for en in engines]\<close>\<close>

fun engine_entries :: "json list \<Rightarrow> pyerror + json list" where
  "engine_entries [] = Inr []"
| "engine_entries (en # ens) =
     (case subscript en ''name'' of
        Inl e \<Rightarrow> Inl e
      | Inr name \<Rightarrow>
          (case engine_entries ens of
             Inl e \<Rightarrow> Inl e
           | Inr rest \<Rightarrow> Inr (JObj [(''text'', name), (''value'', name)] # rest)))"

text \<open>
  \<open>get_cluster_models\<close>; \<open>outcome\<close> is what the one \<open>requests.get\<close> does. The
  result \<open>Inr None\<close> is the bare \<open>return\<close>. The first \<open>except:\<close> is bare, so it
  takes every exception of the request.
\<close>

definition get_cluster_models ::
  "externals \<Rightarrow> horde_backend \<Rightarrow> http_outcome \<Rightarrow> horde_world
     \<Rightarrow> (pyerror + json list option) \<times> horde_world" where
  "get_cluster_models ext self outcome w =
     (let w1 = send (HttpGet (url self @ ''/api/v2/status/models?type=text'') [])
                 (logger LInfo ''<purple>Retrieving engine list...</purple>'' w)
      in case outcome of
           Reply req \<Rightarrow>
             if \<not> ok req then
               (let w2 = logger LInitErr ''KAI Horde Models'' w1
                in case json_body req of
                     None \<Rightarrow> (Inl JSONDecodeError, w2)
                   | Some j \<Rightarrow>
                       (case emit ''from_server'' (JObj [(''cmd'', JStr ''errmsg''), (''data'', j)])
                               (logger LError (py_str ext j) w2) of
                          (Inl e, w3) \<Rightarrow> (Inl e, w3)
                        | (Inr u, w3) \<Rightarrow> (Inr None, w3)))
             else
               (case json_body req of
                  None \<Rightarrow> (Inl JSONDecodeError, w1)
                | Some engines \<Rightarrow>
                    (case (case py_iter engines of Inl e \<Rightarrow> Inl e | Inr ens \<Rightarrow> engine_entries ens) of
                       Inl e \<Rightarrow> (Inl e, logger LError (py_str ext engines) w1)
                     | Inr entries \<Rightarrow>
                         (Inr (Some entries),
                          logger LInitOk ''KAI Horde Models''
                            (logger LDebug (py_str ext (JList entries)) w1))))
         | other \<Rightarrow>
             (case emit ''from_server''
                     (JObj [(''cmd'', JStr ''errmsg''),
                            (''data'', JStr ''Provided KoboldAI Horde URL unreachable'')])
                     (logger LError ''Provided KoboldAI Horde URL unreachable''
                        (logger LInitErr ''KAI Horde Models'' w1)) of
                (Inl e, w3) \<Rightarrow> (Inl e, w3)
              | (Inr u, w3) \<Rightarrow> (Inr None, w3)))"

text \<open>\<open>__init__\<close>: the constructor returns the adapter, or the exception leaves it.\<close>

definition horde_init ::
  "externals \<Rightarrow> http_outcome \<Rightarrow> horde_world \<Rightarrow> (pyerror + horde_backend) \<times> horde_world" where
  "horde_init ext outcome w =
     (let self = \<lparr>url = ''https://horde.koboldai.net'', key = ''0000000000'', models = None\<rparr>
      in case get_cluster_models ext self outcome w of
           (Inl e, w') \<Rightarrow> (Inl e, w')
         | (Inr ms, w') \<Rightarrow> (Inr (self\<lparr>models := ms\<rparr>), w'))"

subsection \<open>The job protocol of \<open>_raw_generate\<close>: submission\<close>

text \<open>
  From the entry of \<open>_raw_generate\<close> to the request id. \<open>post_outcome\<close> is what
  the one \<open>requests.post\<close> does. Only \<open>ConnectionError\<close> is caught there; any
  other exception of the request leaves the function as it is.
\<close>

definition submit_request ::
  "externals \<Rightarrow> horde_backend \<Rightarrow> int list \<Rightarrow> int \<Rightarrow> gen_settings \<Rightarrow> int \<Rightarrow> int option
     \<Rightarrow> http_outcome \<Rightarrow> horde_world \<Rightarrow> (pyerror + json) \<times> horde_world" where
  "submit_request ext self prompt_tokens max_new gs batch_count seed post_outcome w =
     (let w0 = (if seed \<noteq> None
                then logger LWarning
                       ''Seed is unsupported on the APIInferenceModel. Seed will be ignored.'' w
                else w);
          decoded_prompt = decodenewlines ext (tokenizer_decode ext prompt_tokens);
          w1 = w0\<lparr>lastctx := decoded_prompt\<rparr>;
          reqdata = JObj
            [(''max_length'', JNum max_new),
             (''max_context_length'', JNum (max_length w1)),
             (''rep_pen'', rep_pen gs),
             (''rep_pen_slope'', rep_pen_slope gs),
             (''rep_pen_range'', rep_pen_range gs),
             (''temperature'', temp gs),
             (''top_p'', top_p gs),
             (''top_k'', JNum (top_k gs)),
             (''top_a'', top_a gs),
             (''tfs'', tfs gs),
             (''typical'', typical gs),
             (''n'', JNum batch_count)];
          cluster_metadata = JObj
            [(''prompt'', JStr decoded_prompt),
             (''params'', reqdata),
             (''models'', JList (map JStr (filter (\<lambda>x. x \<noteq> []) (cluster_requested_models w1)))),
             (''trusted_workers'', JBool False)];
          cluster_headers = [(''apikey'', key self), (''Client-Agent'', client_agent)];
          w2 = send (HttpPost (url self @ ''/api/v2/generate/text/async'')
                       cluster_headers cluster_metadata) w1
      in case post_outcome of
           ConnectionError \<Rightarrow>
             (Inl (HordeException unavailable_msg), logger LError unavailable_msg w2)
         | Raised e \<Rightarrow> (Inl e, w2)
         | Reply req \<Rightarrow>
             if status_code req = 503 then
               (Inl (HordeException no_servers_msg), logger LError no_servers_msg w2)
             else if \<not> ok req then
               (Inl (HordeException no_standard_reply_msg),
                logger LError (resp_text req)
                  (logger LError no_standard_reply_msg (logger LError (resp_url req) w2)))
             else
               (case json_body req of
                  None \<Rightarrow>
                    (let errmsg = ''Unexpected message received from the Horde: ''
                                    @ quoted (resp_text req)
                     in (Inl (HordeException errmsg), logger LError errmsg w2))
                | Some req_status \<Rightarrow>
                    (case subscript req_status ''id'' of
                       Inl e \<Rightarrow> (Inl e, w2)
                     | Inr request_id \<Rightarrow>
                         (Inr request_id,
                          logger LDebug (''Horde Request ID: '' @ py_str ext request_id) w2))))"

subsection \<open>The job protocol: polling\<close>

text \<open>
  One pass of the body of \<open>while not finished\<close>, up to the assignment of the
  telemetry: it returns \<open>finished\<close> and \<open>req_status\<close>, or the exception. The three
  telemetry fields are read and stored one after the other, so an exception at the
  second one leaves the first one stored.
\<close>

definition poll_once ::
  "externals \<Rightarrow> horde_backend \<Rightarrow> json \<Rightarrow> http_outcome \<Rightarrow> horde_world
     \<Rightarrow> (pyerror + json \<times> json) \<times> horde_world" where
  "poll_once ext self request_id outcome w =
     (let w1 = send (HttpGet (url self @ ''/api/v2/generate/text/status/'' @ py_str ext request_id)
                       [(''Client-Agent'', client_agent)]) w
      in case outcome of
           ConnectionError \<Rightarrow>
             (Inl (HordeException unavailable_msg), logger LError unavailable_msg w1)
         | Raised e \<Rightarrow> (Inl e, w1)
         | Reply req \<Rightarrow>
             if \<not> ok req then
               (Inl (HordeException no_standard_reply_msg), logger LError (resp_text req) w1)
             else
               (case json_body req of
                  None \<Rightarrow>
                    (let errmsg = ''Unexpected message received from the KoboldAI Horde: ''
                                    @ quoted (resp_text req)
                     in (Inl (HordeException errmsg), logger LError errmsg w1))
                | Some req_status \<Rightarrow>
                    (case py_in ''done'' req_status of
                       Inl e \<Rightarrow> (Inl e, w1)
                     | Inr False \<Rightarrow>
                         (let errmsg = ''Unexpected response received from the KoboldAI Horde: ''
                                         @ quoted (py_str ext req_status)
                          in (Inl (HordeException errmsg), logger LError errmsg w1))
                     | Inr True \<Rightarrow>
                         (case subscript req_status ''done'' of
                            Inl e \<Rightarrow> (Inl e, w1)
                          | Inr finished \<Rightarrow>
                         (case subscript req_status ''wait_time'' of
                            Inl e \<Rightarrow> (Inl e, w1)
                          | Inr wt \<Rightarrow>
                         (case subscript req_status ''queue_position'' of
                            Inl e \<Rightarrow> (Inl e, w1\<lparr>horde_wait_time := wt\<rparr>)
                          | Inr qp \<Rightarrow>
                         (case subscript req_status ''waiting'' of
                            Inl e \<Rightarrow> (Inl e, w1\<lparr>horde_wait_time := wt, horde_queue_position := qp\<rparr>)
                          | Inr qs \<Rightarrow>
                              (Inr (finished, req_status),
                               w1\<lparr>horde_wait_time := wt, horde_queue_position := qp,
                                  horde_queue_size := qs\<rparr>))))))))"

text \<open>
  The loop. Each pass takes one outcome of \<open>requests.get\<close> from the list of what the
  status endpoint does, in order; the loop of the source has no bound, so a list that ends
  before the job is done leaves the call without a result (\<open>None\<close>). While the job is
  not done the status is logged and the call sleeps one second.
\<close>

fun poll_status ::
  "externals \<Rightarrow> horde_backend \<Rightarrow> json \<Rightarrow> http_outcome list \<Rightarrow> horde_world
     \<Rightarrow> (pyerror + json) option \<times> horde_world" where
  "poll_status ext self request_id [] w = (None, w)"
| "poll_status ext self request_id (outcome # later) w =
     (case poll_once ext self request_id outcome w of
        (Inl e, w') \<Rightarrow> (Some (Inl e), w')
      | (Inr (finished, req_status), w') \<Rightarrow>
          if \<not> truthy finished
          then poll_status ext self request_id later
                 (send (Sleep 1) (logger LDebug (py_str ext req_status) w'))
          else (Some (Inr req_status), w'))"

subsection \<open>The job protocol: completion\<close>

text \<open>\<open>[(cgen["worker_name"], cgen["worker_id"]) for cgen in generations]\<close>\<close>

fun gen_servers :: "json list \<Rightarrow> pyerror + json list" where
  "gen_servers [] = Inr []"
| "gen_servers (cgen # cgens) =
     (case subscript cgen ''worker_name'' of
        Inl e \<Rightarrow> Inl e
      | Inr worker_name \<Rightarrow>
          (case subscript cgen ''worker_id'' of
             Inl e \<Rightarrow> Inl e
           | Inr worker_id \<Rightarrow>
               (case gen_servers cgens of
                  Inl e \<Rightarrow> Inl e
                | Inr rest \<Rightarrow> Inr (JList [worker_name, worker_id] # rest))))"

text \<open>\<open>[self.tokenizer.encode(cgen["text"]) for cgen in generations]\<close>\<close>

fun encode_generations :: "externals \<Rightarrow> json list \<Rightarrow> pyerror + int list list" where
  "encode_generations ext [] = Inr []"
| "encode_generations ext (cgen # cgens) =
     (case subscript cgen ''text'' of
        Inl e \<Rightarrow> Inl e
      | Inr txt \<Rightarrow>
          (case tokenizer_encode ext txt of
             Inl e \<Rightarrow> Inl e
           | Inr row \<Rightarrow>
               (case encode_generations ext cgens of
                  Inl e \<Rightarrow> Inl e
                | Inr rows \<Rightarrow> Inr (row # rows))))"

text \<open>
  \<open>np.array(rows)\<close> on a list of lists of ints. Rows of one length (no row at all
  included) give the array that has these rows; rows of unequal length are left to
  \<open>np_array_ragged\<close>. An array is modelled as the list of its rows.
\<close>

definition rectangular :: "int list list \<Rightarrow> bool" where
  "rectangular rows =
     (case rows of [] \<Rightarrow> True | r # rs \<Rightarrow> list_all (\<lambda>x. length x = length r) rs)"

definition np_array :: "externals \<Rightarrow> int list list \<Rightarrow> pyerror + int list list" where
  "np_array ext rows = (if rectangular rows then Inr rows else np_array_ragged ext rows)"

text \<open>
  From the end of the loop to the result: the fault test, the list of the workers, the
  encoding of each text, and \<open>np.array\<close> of the encoded rows.
\<close>

definition collect_generations ::
  "externals \<Rightarrow> int list \<Rightarrow> bool \<Rightarrow> json \<Rightarrow> horde_world
     \<Rightarrow> (pyerror + generation_result) \<times> horde_world" where
  "collect_generations ext prompt_tokens single_ln req_status w =
     (let w1 = logger LDebug (''Last Horde Status Message: '' @ py_str ext req_status) w
      in case subscript req_status ''faulted'' of
           Inl e \<Rightarrow> (Inl e, w1)
         | Inr faulted \<Rightarrow>
             if truthy faulted then (Inl (HordeException faulted_msg), w1)
             else
               (case subscript req_status ''generations'' of
                  Inl e \<Rightarrow> (Inl e, w1)
                | Inr generations \<Rightarrow>
                    (case py_iter generations of
                       Inl e \<Rightarrow> (Inl e, w1)
                     | Inr cgens \<Rightarrow>
                         (case gen_servers cgens of
                            Inl e \<Rightarrow> (Inl e, w1)
                          | Inr servers \<Rightarrow>
                              (let w2 = logger LInfo
                                          (''Generations by: '' @ py_str ext (JList servers)) w1
                               in case encode_generations ext cgens of
                                    Inl e \<Rightarrow> (Inl e, w2)
                                  | Inr rows \<Rightarrow>
                                      (case np_array ext rows of
                                         Inl e \<Rightarrow> (Inl e, w2)
                                       | Inr batches \<Rightarrow>
                                           (Inr \<lparr>out_batches = batches,
                                                 prompt = prompt_tokens,
                                                 is_whole_generation = True,
                                                 single_line = single_ln\<rparr>, w2)))))))"

text \<open>
  \<open>_raw_generate\<close>: \<open>None\<close> when the list of outcomes ends before the job is done,
  \<open>Some (Inl e)\<close> when the exception \<open>e\<close> leaves the call, \<open>Some (Inr r)\<close> when it
  returns \<open>r\<close>.
\<close>

definition horde_raw_generate ::
  "externals \<Rightarrow> horde_backend \<Rightarrow> int list \<Rightarrow> int \<Rightarrow> gen_settings \<Rightarrow> bool \<Rightarrow> int \<Rightarrow> int option
     \<Rightarrow> http_outcome \<Rightarrow> http_outcome list \<Rightarrow> horde_world
     \<Rightarrow> (pyerror + generation_result) option \<times> horde_world" where
  "horde_raw_generate ext self prompt_tokens max_new gs single_ln batch_count seed
       post_outcome get_outcomes w =
     (case submit_request ext self prompt_tokens max_new gs batch_count seed post_outcome w of
        (Inl e, w1) \<Rightarrow> (Some (Inl e), w1)
      | (Inr request_id, w1) \<Rightarrow>
          (case poll_status ext self request_id get_outcomes w1 of
             (None, w2) \<Rightarrow> (None, w2)
           | (Some (Inl e), w2) \<Rightarrow> (Some (Inl e), w2)
           | (Some (Inr req_status), w2) \<Rightarrow>
               (case collect_generations ext prompt_tokens single_ln req_status w2 of
                  (r, w3) \<Rightarrow> (Some r, w3))))"

subsection \<open>Replies of the cluster, as the REST contract describes them\<close>

text \<open>
  The submission is accepted with the id \<open>rid\<close>: a response that is not 503, is
  \<open>ok\<close>, and whose JSON body has an \<open>"id"\<close>.
\<close>

definition accepted_id :: "http_outcome \<Rightarrow> json option" where
  "accepted_id post_outcome =
     (case post_outcome of
        Reply req \<Rightarrow>
          if status_code req = 503 \<or> \<not> ok req then None
          else (case json_body req of
                  None \<Rightarrow> None
                | Some j \<Rightarrow> (case subscript j ''id'' of Inl e \<Rightarrow> None | Inr rid \<Rightarrow> Some rid))
      | _ \<Rightarrow> None)"

text \<open>
  A status document: an object that has \<open>"done"\<close> and the three telemetry fields. It
  is done when its \<open>"done"\<close> is true, and faulted when it has a true \<open>"faulted"\<close>.
\<close>

definition status_document :: "json \<Rightarrow> bool" where
  "status_document j =
     (case j of
        JObj kvs \<Rightarrow>
          map_of kvs ''done'' \<noteq> None \<and> map_of kvs ''wait_time'' \<noteq> None
          \<and> map_of kvs ''queue_position'' \<noteq> None \<and> map_of kvs ''waiting'' \<noteq> None
      | _ \<Rightarrow> False)"

definition is_done :: "json \<Rightarrow> bool" where
  "is_done j = (case subscript j ''done'' of Inl e \<Rightarrow> False | Inr d \<Rightarrow> truthy d)"

definition is_faulted :: "json \<Rightarrow> bool" where
  "is_faulted j = (case subscript j ''faulted'' of Inl e \<Rightarrow> False | Inr f \<Rightarrow> truthy f)"


definition status_body :: "response \<Rightarrow> json option" where
  "status_body req =
     (if ok req
      then (case json_body req of
              None \<Rightarrow> None
            | Some j \<Rightarrow> if status_document j then Some j else None)
      else None)"

definition pending_reply :: "response \<Rightarrow> bool" where
  "pending_reply req = (case status_body req of None \<Rightarrow> False | Some j \<Rightarrow> \<not> is_done j)"


definition faulted_reply :: "response \<Rightarrow> bool" where
  "faulted_reply req =
     (case status_body req of None \<Rightarrow> False | Some j \<Rightarrow> is_done j \<and> is_faulted j)"




definition pending_pass ::
  "externals \<Rightarrow> horde_backend \<Rightarrow> json \<Rightarrow> horde_world \<Rightarrow> response \<Rightarrow> horde_world" where
  "pending_pass ext self rid w req =
     send (Sleep 1)
       (logger LDebug (py_str ext (the (json_body req)))
          (snd (poll_once ext self rid (Reply req) w)))"

text \<open>
  The failures the source raises \<open>HordeException\<close> for. At submission: no connection,
  status 503, another status that is not \<open>ok\<close>, a body that is not JSON. At a poll: no
  connection, a status that is not \<open>ok\<close>, a body that is not JSON, a body without
  \<open>"done"\<close>, a status document that is done and faulted.
\<close>

definition submit_failure :: "http_outcome \<Rightarrow> bool" where
  "submit_failure post_outcome =
     (case post_outcome of
        ConnectionError \<Rightarrow> True
      | Reply req \<Rightarrow> status_code req = 503 \<or> \<not> ok req \<or> json_body req = None
      | Raised e \<Rightarrow> False)"

definition poll_failure :: "http_outcome \<Rightarrow> bool" where
  "poll_failure outcome =
     (case outcome of
        ConnectionError \<Rightarrow> True
      | Reply req \<Rightarrow>
          \<not> ok req
          \<or> (case json_body req of
                None \<Rightarrow> True
              | Some j \<Rightarrow>
                  py_in ''done'' j = Inr False
                  \<or> (status_document j \<and> is_done j \<and> is_faulted j))
      | Raised e \<Rightarrow> False)"

text \<open>
  The failures of model discovery: the request raises, the status is not \<open>ok\<close>, or
  the body is not JSON.
\<close>

definition discovery_failure :: "http_outcome \<Rightarrow> bool" where
  "discovery_failure outcome =
     (case outcome of Reply req \<Rightarrow> \<not> ok req \<or> json_body req = None | _ \<Rightarrow> True)"



subsection \<open>A scripted cluster to run the adapter on\<close>

text \<open>
  Collaborators, a start state and replies for running the protocol on concrete inputs:
  a tokenizer that encodes a text as the codes of its characters, the \<open>np.array\<close>
  of NumPy 1.24 and later, the reply that accepts a job, a status reply of a queued job,
  of a finished job with two generations of one length, of a finished job with two
  generations of unequal length, and of a faulted job, and the replies of a cluster that
  has no worker or fails.
\<close>

definition demo_ext :: externals where
  "demo_ext =
     \<lparr>py_repr = (\<lambda>j. ''<object>''),
      tokenizer_decode = (\<lambda>ts. ''Once upon a time''),
      tokenizer_encode = (\<lambda>j. case j of JStr s \<Rightarrow> Inr (map (\<lambda>c. int (of_char c)) s)
                                         | _ \<Rightarrow> Inl TypeError),
      decodenewlines = (\<lambda>s. s),
      np_array_ragged = (\<lambda>rows. Inl ValueError)\<rparr>"

definition demo_backend :: horde_backend where
  "demo_backend = \<lparr>url = ''https://horde.koboldai.net'', key = ''0000000000'', models = None\<rparr>"

definition demo_settings :: gen_settings where
  "demo_settings =
     \<lparr>rep_pen = JNum 1, rep_pen_slope = JNum 0, rep_pen_range = JNum 1024, temp = JNum 1,
      top_p = JNum 1, top_k = 0, top_a = JNum 0, tfs = JNum 1, typical = JNum 1\<rparr>"

definition demo_world :: horde_world where
  "demo_world =
     \<lparr>trace = [], log = [], lastctx = [], max_length = 2048,
      cluster_requested_models = [''koboldcpp/model''],
      horde_wait_time = JNum 0, horde_queue_position = JNum 0, horde_queue_size = JNum 0\<rparr>"

definition accepting_reply :: response where
  "accepting_reply =
     \<lparr>status_code = 202, resp_url = ''https://horde.koboldai.net/api/v2/generate/text/async'',
      resp_text = ''accepted'', json_body = Some (JObj [(''id'', JStr ''job-1'')])\<rparr>"

definition queued_reply :: response where
  "queued_reply =
     \<lparr>status_code = 200, resp_url = [], resp_text = [],
      json_body = Some (JObj [(''done'', JBool False), (''faulted'', JBool False),
                              (''wait_time'', JNum 7), (''queue_position'', JNum 2),
                              (''waiting'', JNum 1), (''generations'', JList [])])\<rparr>"


definition ragged_reply :: response where
  "ragged_reply =
     \<lparr>status_code = 200, resp_url = [], resp_text = [],
      json_body = Some (JObj [(''done'', JBool True), (''faulted'', JBool False),
                              (''wait_time'', JNum 0), (''queue_position'', JNum 0),
                              (''waiting'', JNum 0),
                              (''generations'', JList
                                 [JObj [(''text'', JStr ''ab''), (''worker_name'', JStr ''w1''),
                                        (''worker_id'', JStr ''1'')],
                                  JObj [(''text'', JStr ''c''), (''worker_name'', JStr ''w2''),
                                        (''worker_id'', JStr ''2'')]])])\<rparr>"

definition faulted_job_reply :: response where
  "faulted_job_reply =
     \<lparr>status_code = 200, resp_url = [], resp_text = [],
      json_body = Some (JObj [(''done'', JBool True), (''faulted'', JBool True),
                              (''wait_time'', JNum 0), (''queue_position'', JNum 0),
                              (''waiting'', JNum 0), (''generations'', JList [])])\<rparr>"

definition no_worker_reply :: response where
  "no_worker_reply =
     \<lparr>status_code = 503, resp_url = [], resp_text = ''no workers'', json_body = None\<rparr>"

definition server_error_reply :: response where
  "server_error_reply =
     \<lparr>status_code = 500, resp_url = [], resp_text = ''internal error'', json_body = None\<rparr>"

section \<open>Properties of the local-GPU adapter\<close>

subsection \<open>The generation loop\<close>

lemma gen_loop_sequence:
  "sequence (gen_loop p eos gen_in n w) =
     sequence w @ through_eos eos (sampled_tokens p gen_in n (sequence w) (machine w))"
  by (induction n arbitrary: w) (auto simp: Let_def split: prod.splits)

lemma through_eos_none: "eos \<notin> set ts \<Longrightarrow> through_eos eos ts = ts"
  by (induction ts) auto

lemma through_eos_first:
  "k < length ts \<Longrightarrow> ts ! k = eos \<Longrightarrow> (\<forall>j<k. ts ! j \<noteq> eos)
     \<Longrightarrow> through_eos eos ts = take (Suc k) ts"
proof (induction ts arbitrary: k)
  case Nil
  then show ?case by simp
next
  case (Cons t ts)
  show ?case
  proof (cases k)
    case 0
    with Cons.prems show ?thesis by simp
  next
    case (Suc k')
    from Cons.prems Suc have "t \<noteq> eos" by auto
    moreover from Cons.prems Suc have "through_eos eos ts = take (Suc k') ts"
      by (intro Cons.IH) auto
    ultimately show ?thesis using Suc by simp
  qed
qed

lemma length_sampled_tokens: "length (sampled_tokens p gen_in n seq m) = n"
  by (induction n arbitrary: seq m) (auto simp: Let_def split: prod.splits)

lemma gen_loop_manual_seed_calls:
  "manual_seed_calls (gen_loop p eos gen_in n w) = manual_seed_calls w"
  by (induction n arbitrary: w) (auto simp: Let_def split: prod.splits)

text \<open>
  Claim C2. On exit of the local-GPU adapter's \<open>_raw_generate\<close> the shared counter
  \<open>generated_tkns\<close> equals the requested \<open>max_new\<close>, whatever the loop did and
  whether or not it stopped early on the end-of-sequence token.
\<close>

theorem exllama_generated_tkns_is_max_new:
  "generated_tkns (snd (exllama_raw_generate p eos prompt_tokens max_new single_ln seed w)) = max_new"
  by (simp add: exllama_raw_generate_def Let_def)

text \<open>
  Claim C3 says that every supplied seed, 0 included, re-seeds the generator. The guard
  is \<open>if seed:\<close>, and 0 is false in Python: with the seed 0 no call of
  \<open>torch.manual_seed\<close> is made and the machine state reaches \<open>gen_begin_reuse\<close>
  as it was.
\<close>

theorem exllama_seed_zero_not_reseeded:
  "manual_seed_calls (snd (exllama_raw_generate p eos prompt_tokens max_new single_ln (Some 0) w))
     = manual_seed_calls w
   \<and> apply_seed p (Some 0) w = w"
  by (simp add: exllama_raw_generate_def Let_def apply_seed_def seed_truthy_def
        gen_begin_reuse_def gen_loop_manual_seed_calls)

text \<open>
  Claim C5. Let \<open>toks\<close> be the \<open>N\<close> tokens the sampler yields from the primed state
  when nothing stops it, and count the steps from 1. If the end-of-sequence id is not
  among them, the returned suffix is \<open>toks\<close> and has length \<open>N\<close>. If the \<open>k\<close>-th
  token is the first end-of-sequence id (\<open>k \<le> N\<close>, so also for every \<open>k < N\<close>), the
  suffix is the first \<open>k\<close> tokens: it has length \<open>k\<close> and ends with the
  end-of-sequence id, and nothing is sampled after it.
\<close>

theorem exllama_suffix_length:
  assumes "0 \<le> N"
    and "toks = sampled_tokens p prompt_tokens (nat N) prompt_tokens
                 (machine (gen_begin_reuse p prompt_tokens (apply_seed p seed w)))"
    and "res = fst (exllama_raw_generate p eos prompt_tokens N single_ln seed w)"
  shows "\<exists>suffix. out_batches res = [suffix] \<and>
    (eos \<notin> set toks \<longrightarrow> suffix = toks \<and> int (length suffix) = N) \<and>
    (\<forall>k. 1 \<le> k \<and> int k \<le> N \<and> toks ! (k - 1) = eos \<and> (\<forall>j<k - 1. toks ! j \<noteq> eos)
        \<longrightarrow> suffix = take k toks \<and> length suffix = k \<and> last suffix = eos)"
proof -
  define w0 where "w0 = gen_begin_reuse p prompt_tokens (apply_seed p seed w)"
  have seq0: "sequence w0 = prompt_tokens" by (simp add: w0_def gen_begin_reuse_def)
  have toks: "toks = sampled_tokens p prompt_tokens (nat N) (sequence w0) (machine w0)"
    using assms(2) by (simp add: w0_def seq0 [unfolded w0_def])
  have len: "length toks = nat N" by (simp add: toks length_sampled_tokens)
  define suffix where "suffix = through_eos eos toks"
  have "sequence (gen_loop p eos prompt_tokens (nat N) w0) = prompt_tokens @ suffix"
    by (simp add: gen_loop_sequence seq0 suffix_def toks)
  then have out: "out_batches res = [suffix]"
    by (simp add: assms(3) exllama_raw_generate_def Let_def w0_def)
  have a: "eos \<notin> set toks \<longrightarrow> suffix = toks \<and> int (length suffix) = N"
    using assms(1) len by (simp add: suffix_def through_eos_none)
  have b: "suffix = take k toks \<and> length suffix = k \<and> last suffix = eos"
    if "1 \<le> k" "int k \<le> N" "toks ! (k - 1) = eos" "\<forall>j<k - 1. toks ! j \<noteq> eos" for k
  proof -
    from that len have kl: "k - 1 < length toks" by linarith
    have "through_eos eos toks = take (Suc (k - 1)) toks"
      by (rule through_eos_first [OF kl that(3)]) (use that(4) in simp)
    with that(1) have s: "suffix = take k toks" by (simp add: suffix_def)
    from kl that(1) have l: "length (take k toks) = k" by simp
    from kl have "take (Suc (k - 1)) toks = take (k - 1) toks @ [toks ! (k - 1)]"
      by (rule take_Suc_conv_app_nth)
    with that(1) have "last (take k toks) = toks ! (k - 1)" by simp
    with l show ?thesis using s that(3) by simp
  qed
  from out a b show ?thesis by blast
qed

theorem exllama_suffix_length_witness:
  "(0::int) \<le> 5
   \<and> sampled_tokens count_provider [5, 6] (nat 5) [5, 6]
        (machine (gen_begin_reuse count_provider [5, 6]
                    (apply_seed count_provider (Some 4) idle_world)))
       = [6, 8, 10, 12, 14]
   \<and> out_batches (fst (exllama_raw_generate count_provider 10 [5, 6] 5 False (Some 4) idle_world))
       = [[6, 8, 10]]"
proof -
  have t: "[6, 8, 10, 12, 14] = sampled_tokens count_provider [5, 6] (nat 5) [5, 6]
        (machine (gen_begin_reuse count_provider [5, 6]
                    (apply_seed count_provider (Some 4) idle_world)))"
    by (simp add: count_provider_def idle_world_def gen_begin_reuse_def apply_seed_def
          seed_truthy_def eval_nat_numeral)
  have n: "(0::int) \<le> 5" by simp
  from exllama_suffix_length [OF n t refl, of 10 False]
  obtain suffix where s: "out_batches (fst (exllama_raw_generate count_provider 10 [5, 6] 5 False
                                             (Some 4) idle_world)) = [suffix]"
    and k: "\<forall>k. 1 \<le> k \<and> int k \<le> 5 \<and> [6, 8, 10, 12, 14] ! (k - 1) = (10::int)
              \<and> (\<forall>j<k - 1. [6, 8, 10, 12, 14] ! j \<noteq> (10::int))
            \<longrightarrow> suffix = take k [6, 8, 10, 12, 14] \<and> length suffix = k \<and> last suffix = 10"
    by blast
  have "\<forall>j<2. [6, 8, 10, 12, 14] ! j \<noteq> (10::int)"
    by (simp add: less_Suc_eq eval_nat_numeral)
  with k [rule_format, of 3] have "suffix = [6, 8, 10]" by (simp add: eval_nat_numeral)
  with s t n show ?thesis by simp
qed

subsection \<open>The tokenizer wrappers\<close>

lemma has_prefix_space_iff:
  "t \<in> has_prefix_space vocab \<longleftrightarrow>
     0 \<le> t \<and> nat t < length vocab \<and> startswith (vocab ! nat t) word_boundary_marker"
  unfolding has_prefix_space_def by (auto simp: in_set_enumerate_eq image_iff)

text \<open>
  Claim C9. The wrapped \<open>decode\<close> gives the same result for the scalar \<open>t\<close> (a Python
  int or a tensor of dimension 0) and for the one-element list \<open>[t]\<close>; and for a
  vocabulary id \<open>t\<close> on which the library's \<open>decode\<close> of \<open>[t]\<close> returns \<open>txt\<close>,
  the result is \<open>txt\<close> with one space put in front when the surface form of \<open>t\<close>
  starts with the word-boundary marker, and \<open>txt\<close> itself otherwise.
\<close>

theorem decode_wrapper_scalar_is_sequence:
  "decode_wrapper od vocab (PyInt t) args = decode_wrapper od vocab (PyList [t]) args
   \<and> decode_wrapper od vocab (Tensor0 t) args = decode_wrapper od vocab (PyList [t]) args
   \<and> (0 \<le> t \<and> nat t < length vocab \<and> od (PyList [t]) args = Inr txt \<longrightarrow>
        decode_wrapper od vocab (PyInt t) args =
          (if startswith (vocab ! nat t) word_boundary_marker
           then Inr (CHR '' '' # txt) else Inr txt))"
  by (simp add: decode_wrapper_def has_prefix_space_iff)

theorem decode_wrapper_scalar_is_sequence_witness:
  "(0::int) \<le> 1 \<and> nat 1 < length bob_vocab
   \<and> piece_decode bob_vocab (PyList [1]) () = Inr ''Bob''
   \<and> piece_decode bob_vocab (PyInt 1) () \<noteq> piece_decode bob_vocab (PyList [1]) ()
   \<and> decode_wrapper (piece_decode bob_vocab) bob_vocab (PyInt 1) () = Inr '' Bob''
   \<and> decode_wrapper (piece_decode bob_vocab) bob_vocab (PyList [1]) () = Inr '' Bob''"
proof -
  have v: "(0::int) \<le> 1 \<and> nat 1 < length bob_vocab" by (simp add: bob_vocab_def)
  have d: "piece_decode bob_vocab (PyList [1]) () = Inr ''Bob''"
    by (simp add: piece_decode_def bob_vocab_def surface_def startswith_def
          word_boundary_marker_def)
  have n: "piece_decode bob_vocab (PyInt 1) () \<noteq> piece_decode bob_vocab (PyList [1]) ()"
    by (simp add: piece_decode_def bob_vocab_def surface_def startswith_def
          word_boundary_marker_def)
  have m: "startswith (bob_vocab ! nat 1) word_boundary_marker"
    by (simp add: bob_vocab_def startswith_def)
  from decode_wrapper_scalar_is_sequence
         [of "piece_decode bob_vocab" bob_vocab 1 "()" "''Bob''"] v d m
  have "decode_wrapper (piece_decode bob_vocab) bob_vocab (PyInt 1) () = Inr '' Bob''"
    and "decode_wrapper (piece_decode bob_vocab) bob_vocab (PyList [1]) () = Inr '' Bob''"
    by auto
  with v d n show ?thesis by simp
qed

text \<open>
  Claim C4 says that the wrapped \<open>encode\<close> of \<open>s1 + s2\<close> begins with the wrapped
  \<open>encode\<close> of \<open>s1\<close> for all strings. The wrapper puts a comma in front of the text
  and drops the first id of what the library returns; where the library splits the text
  is not in its hands. With a tokenizer that takes the longest piece, \<open>a\<close> is encoded
  as the piece \<open>a\<close> and \<open>ab\<close> as the single piece \<open>ab\<close>.
\<close>

theorem encode_wrapper_prefix_counterexample:
  "encode_wrapper (piece_encode llama_pieces) (Str ''a'') () = Inr [29874]
   \<and> encode_wrapper (piece_encode llama_pieces) (Str (''a'' @ ''b'')) () = Inr [370]
   \<and> \<not> prefix [29874 :: int] [370]"
  by (simp add: encode_wrapper_def piece_encode_def llama_pieces_def word_boundary_marker_def)

text \<open>
  Claim C4, amended. The wrapped \<open>encode\<close> of a string \<open>s\<close> is the library's
  encoding of \<open>"," + s\<close> without its first id. So whenever the library's encoding of
  \<open>"," + s1 + s2\<close> begins with its encoding of \<open>"," + s1\<close>, the wrapped
  \<open>encode\<close> of \<open>s1 + s2\<close> begins with the wrapped \<open>encode\<close> of \<open>s1\<close>.
\<close>

theorem encode_wrapper_prefix_if_library_prefix:
  assumes "oe (Str ('','' @ s1)) args = Inr r1"
    and "oe (Str ('','' @ s1 @ s2)) args = Inr r12"
    and "prefix r1 r12"
  shows "\<exists>e1 e12. encode_wrapper oe (Str s1) args = Inr e1
           \<and> encode_wrapper oe (Str (s1 @ s2)) args = Inr e12
           \<and> e1 = drop 1 r1 \<and> e12 = drop 1 r12 \<and> prefix e1 e12"
  using assms by (auto simp: encode_wrapper_def prefix_def)

theorem encode_wrapper_prefix_if_library_prefix_witness:
  "piece_encode llama_pieces (Str ('','' @ ''ab'')) () = Inr [1919, 370]
   \<and> piece_encode llama_pieces (Str ('','' @ ''ab'' @ ''a'')) () = Inr [1919, 370, 29874]
   \<and> prefix [1919, 370] [1919, 370, 29874 :: int]
   \<and> encode_wrapper (piece_encode llama_pieces) (Str ''ab'') () = Inr [370]
   \<and> encode_wrapper (piece_encode llama_pieces) (Str (''ab'' @ ''a'')) () = Inr [370, 29874]"
proof -
  have a: "piece_encode llama_pieces (Str ('','' @ ''ab'')) () = Inr [1919, 370]"
    by (simp add: piece_encode_def llama_pieces_def word_boundary_marker_def)
  have b: "piece_encode llama_pieces (Str ('','' @ ''ab'' @ ''a'')) () = Inr [1919, 370, 29874]"
    by (simp add: piece_encode_def llama_pieces_def word_boundary_marker_def)
  have c: "prefix [1919, 370] [1919, 370, 29874 :: int]" by simp
  from encode_wrapper_prefix_if_library_prefix
         [of "piece_encode llama_pieces" "''ab''" "()" "[1919, 370]" "''a''" "[1919, 370, 29874]"]
       a b c
  show ?thesis by auto
qed

section \<open>Properties of the remote-cluster adapter\<close>

subsection \<open>Steps of the protocol\<close>

lemma trace_logger [simp]: "trace (logger lvl msg w) = trace w"
  by (simp add: logger_def)

lemma trace_send [simp]: "trace (send ev w) = trace w @ [ev]"
  by (simp add: send_def)

lemma log_send [simp]: "log (send ev w) = log w"
  by (simp add: send_def)

lemma log_logger [simp]: "log (logger lvl msg w) = log w @ [(lvl, msg)]"
  by (simp add: logger_def)


lemma status_bodyD:
  "status_body req = Some j \<Longrightarrow> ok req \<and> json_body req = Some j \<and> status_document j"
  by (auto simp: status_body_def split: if_splits option.splits)

lemma status_document_fields:
  assumes "status_document j"
  shows "py_in ''done'' j = Inr True"
    and "\<exists>d. subscript j ''done'' = Inr d"
    and "\<exists>v. subscript j ''wait_time'' = Inr v"
    and "\<exists>v. subscript j ''queue_position'' = Inr v"
    and "\<exists>v. subscript j ''waiting'' = Inr v"
proof -
  from assms obtain kvs where j: "j = JObj kvs"
    by (cases j) (simp_all add: status_document_def)
  have "k \<in> set (map fst kvs)" if "map_of kvs k \<noteq> None" for k
    using that by (simp add: map_of_eq_None_iff)
  with assms j show "py_in ''done'' j = Inr True"
    by (simp add: status_document_def)
  from assms j show "\<exists>d. subscript j ''done'' = Inr d"
    and "\<exists>v. subscript j ''wait_time'' = Inr v"
    and "\<exists>v. subscript j ''queue_position'' = Inr v"
    and "\<exists>v. subscript j ''waiting'' = Inr v"
    by (auto simp: status_document_def)
qed

lemma poll_once_status:
  assumes "status_body req = Some j"
  shows "\<exists>d. subscript j ''done'' = Inr d \<and> fst (poll_once ext self rid (Reply req) w) = Inr (d, j)"
proof -
  from status_bodyD [OF assms] have o: "ok req" and b: "json_body req = Some j"
    and s: "status_document j" by auto
  from status_document_fields [OF s] obtain d wt qp qs where
    "py_in ''done'' j = Inr True" "subscript j ''done'' = Inr d"
    "subscript j ''wait_time'' = Inr wt" "subscript j ''queue_position'' = Inr qp"
    "subscript j ''waiting'' = Inr qs" by blast
  then show ?thesis using o b by (simp add: poll_once_def Let_def)
qed

lemma poll_status_pending:
  assumes "pending_reply req"
  shows "poll_status ext self rid (Reply req # later) w =
           poll_status ext self rid later (pending_pass ext self rid w req)"
proof -
  from assms obtain j where sb: "status_body req = Some j" and nd: "\<not> is_done j"
    by (auto simp: pending_reply_def split: option.splits)
  from poll_once_status [OF sb, of ext self rid w] obtain d where
    d: "subscript j ''done'' = Inr d" and p: "fst (poll_once ext self rid (Reply req) w) = Inr (d, j)"
    by blast
  from nd d have "\<not> truthy d" by (simp add: is_done_def)
  moreover from status_bodyD [OF sb] have "json_body req = Some j" by simp
  ultimately show ?thesis using p
    by (cases "poll_once ext self rid (Reply req) w") (simp add: pending_pass_def)
qed

lemma poll_status_done:
  assumes "status_body req = Some j" and "is_done j"
  shows "poll_status ext self rid (Reply req # later) w =
           (Some (Inr j), snd (poll_once ext self rid (Reply req) w))"
proof -
  from poll_once_status [OF assms(1), of ext self rid w] obtain d where
    d: "subscript j ''done'' = Inr d" and p: "fst (poll_once ext self rid (Reply req) w) = Inr (d, j)"
    by blast
  from assms(2) d have "truthy d" by (simp add: is_done_def)
  then show ?thesis using p
    by (cases "poll_once ext self rid (Reply req) w") simp
qed

lemma poll_status_pendings:
  "list_all pending_reply reqs \<Longrightarrow>
     poll_status ext self rid (map Reply reqs @ later) w =
       poll_status ext self rid later (foldl (pending_pass ext self rid) w reqs)"
  by (induction reqs arbitrary: w) (simp_all add: poll_status_pending del: poll_status.simps)


lemma submit_request_accepted:
  assumes "accepted_id post_outcome = Some rid"
  shows "fst (submit_request ext self prompt_tokens max_new gs batch_count seed post_outcome w) = Inr rid"
  using assms
  by (auto simp: accepted_id_def submit_request_def Let_def
      split: http_outcome.splits if_splits option.splits sum.splits)




lemma collect_generations_faulted:
  "is_faulted j \<Longrightarrow>
     fst (collect_generations ext prompt_tokens single_ln j w) = Inl (HordeException faulted_msg)"
  by (auto simp: collect_generations_def is_faulted_def Let_def split: sum.splits)



lemma raw_generate_accepted:
  assumes "accepted_id post_outcome = Some rid"
  shows "horde_raw_generate ext self prompt_tokens max_new gs single_ln batch_count seed post_outcome gets w =
     (case poll_status ext self rid gets
             (snd (submit_request ext self prompt_tokens max_new gs batch_count seed post_outcome w)) of
        (None, w2) \<Rightarrow> (None, w2)
      | (Some (Inl e), w2) \<Rightarrow> (Some (Inl e), w2)
      | (Some (Inr req_status), w2) \<Rightarrow>
          (case collect_generations ext prompt_tokens single_ln req_status w2 of
             (r, w3) \<Rightarrow> (Some r, w3)))"
  using submit_request_accepted [OF assms, of ext self prompt_tokens max_new gs batch_count seed w]
  by (cases "submit_request ext self prompt_tokens max_new gs batch_count seed post_outcome w")
     (simp add: horde_raw_generate_def)

lemma submit_request_failure:
  assumes "submit_failure post_outcome"
  shows "\<exists>msg. fst (submit_request ext self prompt_tokens max_new gs batch_count seed post_outcome w)
           = Inl (HordeException msg)"
  using assms
  by (auto simp: submit_failure_def submit_request_def Let_def split: http_outcome.splits)

lemma poll_once_failure:
  assumes "poll_failure outcome"
  shows "(\<exists>msg. fst (poll_once ext self rid outcome w) = Inl (HordeException msg))
         \<or> (\<exists>req j. outcome = Reply req \<and> status_body req = Some j \<and> is_done j \<and> is_faulted j)"
proof (cases outcome)
  case (Reply req)
  show ?thesis
  proof (cases "ok req")
    case False
    with Reply show ?thesis by (simp add: poll_once_def Let_def)
  next
    case True
    show ?thesis
    proof (cases "json_body req")
      case None
      with True Reply show ?thesis by (simp add: poll_once_def Let_def)
    next
      case (Some j)
      from assms Reply True Some
      consider "py_in ''done'' j = Inr False" | "status_document j \<and> is_done j \<and> is_faulted j"
        by (auto simp: poll_failure_def)
      then show ?thesis
      proof cases
        case 1
        with True Some Reply show ?thesis by (simp add: poll_once_def Let_def)
      next
        case 2
        with True Some Reply show ?thesis by (simp add: status_body_def)
      qed
    qed
  qed
next
  case ConnectionError
  then show ?thesis by (simp add: poll_once_def Let_def)
next
  case (Raised e)
  with assms show ?thesis by (simp add: poll_failure_def)
qed

lemma poll_status_failure:
  assumes "poll_failure outcome"
  shows "(\<exists>msg. fst (poll_status ext self rid (outcome # later) w) = Some (Inl (HordeException msg)))
         \<or> (\<exists>j. is_faulted j \<and> 
                 poll_status ext self rid (outcome # later) w = (Some (Inr j), snd (poll_once ext self rid outcome w)))"
  using poll_once_failure [OF assms, of ext self rid w]
proof (elim disjE exE conjE)
  fix msg assume "fst (poll_once ext self rid outcome w) = Inl (HordeException msg)"
  then show ?thesis by (cases "poll_once ext self rid outcome w") simp
next
  fix req j assume "outcome = Reply req" "status_body req = Some j" "is_done j" "is_faulted j"
  then show ?thesis using poll_status_done [of req j ext self rid later w] by auto
qed

lemma get_cluster_models_failure:
  assumes "discovery_failure outcome"
  shows "\<exists>e. fst (get_cluster_models ext self outcome w) = Inl e"
  using assms
  by (auto simp: discovery_failure_def get_cluster_models_def emit_def Let_def
      split: http_outcome.splits option.splits)

lemma get_cluster_models_list:
  "fst (get_cluster_models ext self outcome w) = Inr ms \<Longrightarrow> ms \<noteq> None"
  by (auto simp: get_cluster_models_def emit_def Let_def
      split: http_outcome.splits option.splits if_splits sum.splits)

subsection \<open>The job protocol\<close>



text \<open>
  With encodings of unequal length the result is what \<open>np.array\<close> makes of them: under
  NumPy 1.24 and later the same four polls end in \<open>ValueError\<close>.
\<close>

lemma horde_ragged_rows_value_error:
  "fst (horde_raw_generate demo_ext demo_backend [1, 2] 80 demo_settings False 2 None
          (Reply accepting_reply)
          [Reply queued_reply, Reply queued_reply, Reply queued_reply, Reply ragged_reply]
          demo_world)
     = Some (Inl ValueError)"
  by (simp add: horde_raw_generate_def submit_request_def poll_once_def collect_generations_def
        np_array_def rectangular_def demo_ext_def demo_backend_def demo_settings_def
        demo_world_def accepting_reply_def queued_reply_def ragged_reply_def ok_def
        send_def logger_def py_str_def Let_def)


text \<open>
  Claim C7. A submission answered with status 503 raises the exception with the "no
  available servers" message. Any other status that is not \<open>ok\<close> (500, say) raises
  it with the "failed to get a standard reply" message, a different text, and the body of
  the response is written to the error log.
\<close>

theorem horde_503_is_distinct:
  "(status_code req = 503 \<longrightarrow>
      fst (horde_raw_generate ext self prompt_tokens max_new gs single_ln batch_count seed
             (Reply req) gets w) = Some (Inl (HordeException no_servers_msg)))
   \<and> (status_code req \<noteq> 503 \<and> \<not> ok req \<longrightarrow>
        fst (horde_raw_generate ext self prompt_tokens max_new gs single_ln batch_count seed
               (Reply req) gets w) = Some (Inl (HordeException no_standard_reply_msg))
        \<and> (LError, resp_text req) \<in> set (log (snd (horde_raw_generate ext self prompt_tokens
               max_new gs single_ln batch_count seed (Reply req) gets w))))
   \<and> no_servers_msg \<noteq> no_standard_reply_msg"
proof -
  have "no_servers_msg \<noteq> no_standard_reply_msg"
    by (simp add: no_servers_msg_def no_standard_reply_msg_def)
  then show ?thesis
    by (simp add: horde_raw_generate_def submit_request_def Let_def)
qed

theorem horde_503_is_distinct_witness:
  "status_code no_worker_reply = 503
   \<and> status_code server_error_reply \<noteq> 503 \<and> \<not> ok server_error_reply
   \<and> fst (horde_raw_generate demo_ext demo_backend [1, 2] 80 demo_settings False 1 None
            (Reply no_worker_reply) [] demo_world) = Some (Inl (HordeException no_servers_msg))
   \<and> fst (horde_raw_generate demo_ext demo_backend [1, 2] 80 demo_settings False 1 None
            (Reply server_error_reply) [] demo_world)
       = Some (Inl (HordeException no_standard_reply_msg))
   \<and> (LError, ''internal error'') \<in> set (log (snd (horde_raw_generate demo_ext demo_backend
         [1, 2] 80 demo_settings False 1 None (Reply server_error_reply) [] demo_world)))"
proof -
  have a: "status_code no_worker_reply = 503" by (simp add: no_worker_reply_def)
  have b: "status_code server_error_reply \<noteq> 503 \<and> \<not> ok server_error_reply"
    by (simp add: server_error_reply_def ok_def)
  have t: "resp_text server_error_reply = ''internal error''" by (simp add: server_error_reply_def)
  from horde_503_is_distinct [of no_worker_reply demo_ext demo_backend "[1, 2]" 80 demo_settings
         False 1 None "[]" demo_world] a
  have c: "fst (horde_raw_generate demo_ext demo_backend [1, 2] 80 demo_settings False 1 None
            (Reply no_worker_reply) [] demo_world) = Some (Inl (HordeException no_servers_msg))"
    by blast
  from horde_503_is_distinct [of server_error_reply demo_ext demo_backend "[1, 2]" 80 demo_settings
         False 1 None "[]" demo_world] b t
  have d: "fst (horde_raw_generate demo_ext demo_backend [1, 2] 80 demo_settings False 1 None
            (Reply server_error_reply) [] demo_world)
       = Some (Inl (HordeException no_standard_reply_msg))
   \<and> (LError, ''internal error'') \<in> set (log (snd (horde_raw_generate demo_ext demo_backend
         [1, 2] 80 demo_settings False 1 None (Reply server_error_reply) [] demo_world)))"
    by simp
  from a b c d show ?thesis by blast
qed

text \<open>
  Claim C8. After an accepted submission and any number of status documents that are not
  done, a status document that is done and faulted makes \<open>_raw_generate\<close> raise the
  exception with the "generation faulted" message, which is not the message of a lost
  connection; no result is returned.
\<close>

theorem horde_faulted_job_raises:
  assumes "accepted_id post_outcome = Some rid"
    and "list_all pending_reply reqs"
    and "faulted_reply req"
  shows "fst (horde_raw_generate ext self prompt_tokens max_new gs single_ln batch_count seed
                post_outcome (map Reply reqs @ Reply req # later) w)
           = Some (Inl (HordeException faulted_msg))
         \<and> faulted_msg \<noteq> unavailable_msg"
proof -
  define w1 where "w1 = snd (submit_request ext self prompt_tokens max_new gs batch_count seed post_outcome w)"
  define w2 where "w2 = foldl (pending_pass ext self rid) w1 reqs"
  from assms(3) obtain j where sb: "status_body req = Some j" and d: "is_done j" and f: "is_faulted j"
    by (auto simp: faulted_reply_def split: option.splits)
  have "poll_status ext self rid (map Reply reqs @ Reply req # later) w1
          = (Some (Inr j), snd (poll_once ext self rid (Reply req) w2))"
    using assms(2) poll_status_done [OF sb d]
    by (simp add: poll_status_pendings w2_def del: poll_status.simps)
  then have "fst (horde_raw_generate ext self prompt_tokens max_new gs single_ln batch_count seed
                post_outcome (map Reply reqs @ Reply req # later) w)
           = Some (Inl (HordeException faulted_msg))"
    unfolding raw_generate_accepted [OF assms(1)] w1_def [symmetric]
    using collect_generations_faulted [OF f, of ext prompt_tokens single_ln
            "snd (poll_once ext self rid (Reply req) w2)"]
    by (simp add: case_prod_unfold)
  moreover have "faulted_msg \<noteq> unavailable_msg"
    by (simp add: faulted_msg_def unavailable_msg_def)
  ultimately show ?thesis by simp
qed

theorem horde_faulted_job_raises_witness:
  "accepted_id (Reply accepting_reply) = Some (JStr ''job-1'')
   \<and> list_all pending_reply [queued_reply, queued_reply]
   \<and> faulted_reply faulted_job_reply
   \<and> fst (horde_raw_generate demo_ext demo_backend [1, 2] 80 demo_settings False 1 None
            (Reply accepting_reply)
            [Reply queued_reply, Reply queued_reply, Reply faulted_job_reply] demo_world)
       = Some (Inl (HordeException ''Horde Text generation faulted! Please try again.''))"
proof -
  have a: "accepted_id (Reply accepting_reply) = Some (JStr ''job-1'')"
    by (simp add: accepted_id_def accepting_reply_def ok_def)
  have q: "list_all pending_reply [queued_reply, queued_reply]"
    by (simp add: pending_reply_def status_body_def queued_reply_def ok_def
          status_document_def is_done_def)
  have f: "faulted_reply faulted_job_reply"
    by (simp add: faulted_reply_def status_body_def faulted_job_reply_def ok_def
          status_document_def is_done_def is_faulted_def)
  from horde_faulted_job_raises [OF a q f,
      of demo_ext demo_backend "[1, 2]" 80 demo_settings False 1 None "[]" demo_world]
  show ?thesis using a q f by (simp add: faulted_msg_def)
qed

text \<open>
  Claim C10. Each failure the protocol raises on purpose gives a \<open>HordeException\<close>:
  at submission a lost connection, status 503, another status that is not \<open>ok\<close>, a
  body that is not JSON; at a poll that is reached through status documents that are not
  done, a lost connection, a status that is not \<open>ok\<close>, a body that is not JSON, a
  body without \<open>"done"\<close>, a job that is done and faulted. The kind of failure is in
  the message only.
\<close>

theorem horde_errors_are_horde_exceptions:
  assumes "submit_failure post_outcome
           \<or> (accepted_id post_outcome = Some rid \<and> list_all pending_reply reqs
               \<and> gets = map Reply reqs @ outcome # later \<and> poll_failure outcome)"
  shows "\<exists>msg. fst (horde_raw_generate ext self prompt_tokens max_new gs single_ln batch_count seed
                       post_outcome gets w) = Some (Inl (HordeException msg))"
  using assms
proof
  assume "submit_failure post_outcome"
  from submit_request_failure [OF this, of ext self prompt_tokens max_new gs batch_count seed w]
  obtain msg where "fst (submit_request ext self prompt_tokens max_new gs batch_count seed post_outcome w)
           = Inl (HordeException msg)" ..
  then show ?thesis
    by (cases "submit_request ext self prompt_tokens max_new gs batch_count seed post_outcome w")
       (simp add: horde_raw_generate_def)
next
  assume h: "accepted_id post_outcome = Some rid \<and> list_all pending_reply reqs
               \<and> gets = map Reply reqs @ outcome # later \<and> poll_failure outcome"
  define w1 where "w1 = snd (submit_request ext self prompt_tokens max_new gs batch_count seed post_outcome w)"
  define w2 where "w2 = foldl (pending_pass ext self rid) w1 reqs"
  from h have p: "poll_status ext self rid gets w1 = poll_status ext self rid (outcome # later) w2"
    by (simp add: poll_status_pendings w2_def del: poll_status.simps)
  from h have pf: "poll_failure outcome" by simp
  from h have acc: "accepted_id post_outcome = Some rid" by simp
  from poll_status_failure [OF pf, of ext self rid later w2]
  show ?thesis
  proof (elim disjE exE conjE)
    fix msg assume "fst (poll_status ext self rid (outcome # later) w2) = Some (Inl (HordeException msg))"
    then show ?thesis
      unfolding raw_generate_accepted [OF acc] w1_def [symmetric] p
      by (cases "poll_status ext self rid (outcome # later) w2") auto
  next
    fix j assume f: "is_faulted j"
      and "poll_status ext self rid (outcome # later) w2 = (Some (Inr j), snd (poll_once ext self rid outcome w2))"
    then show ?thesis
      unfolding raw_generate_accepted [OF acc] w1_def [symmetric] p
      using collect_generations_faulted [OF f, of ext prompt_tokens single_ln "snd (poll_once ext self rid outcome w2)"]
      by (auto simp: case_prod_unfold)
  qed
qed

theorem horde_errors_are_horde_exceptions_witness:
  "accepted_id (Reply accepting_reply) = Some (JStr ''job-1'')
   \<and> list_all pending_reply [queued_reply]
   \<and> poll_failure (Reply faulted_job_reply) \<and> poll_failure ConnectionError
   \<and> submit_failure (Reply no_worker_reply)
   \<and> (\<exists>msg. fst (horde_raw_generate demo_ext demo_backend [1, 2] 80 demo_settings False 1 None
            (Reply accepting_reply) [Reply queued_reply, Reply faulted_job_reply] demo_world)
        = Some (Inl (HordeException msg)))
   \<and> (\<exists>msg. fst (horde_raw_generate demo_ext demo_backend [1, 2] 80 demo_settings False 1 None
            (Reply accepting_reply) [Reply queued_reply, ConnectionError] demo_world)
        = Some (Inl (HordeException msg)))
   \<and> (\<exists>msg. fst (horde_raw_generate demo_ext demo_backend [1, 2] 80 demo_settings False 1 None
            (Reply no_worker_reply) [] demo_world)
        = Some (Inl (HordeException msg)))"
proof -
  have a: "accepted_id (Reply accepting_reply) = Some (JStr ''job-1'')"
    by (simp add: accepted_id_def accepting_reply_def ok_def)
  have q: "list_all pending_reply [queued_reply]"
    by (simp add: pending_reply_def status_body_def queued_reply_def ok_def
          status_document_def is_done_def)
  have f: "poll_failure (Reply faulted_job_reply)"
    by (simp add: poll_failure_def faulted_job_reply_def ok_def
          status_document_def is_done_def is_faulted_def)
  have c: "poll_failure ConnectionError" by (simp add: poll_failure_def)
  have s: "submit_failure (Reply no_worker_reply)"
    by (simp add: submit_failure_def no_worker_reply_def)
  have 1: "\<exists>msg. fst (horde_raw_generate demo_ext demo_backend [1, 2] 80 demo_settings False 1 None
            (Reply accepting_reply) [Reply queued_reply, Reply faulted_job_reply] demo_world)
        = Some (Inl (HordeException msg))"
    using horde_errors_are_horde_exceptions [of "Reply accepting_reply" "JStr ''job-1''"
         "[queued_reply]" "[Reply queued_reply, Reply faulted_job_reply]" "Reply faulted_job_reply" "[]"
         demo_ext demo_backend "[1, 2]" 80 demo_settings False 1 None demo_world] a q f
    by simp
  have 2: "\<exists>msg. fst (horde_raw_generate demo_ext demo_backend [1, 2] 80 demo_settings False 1 None
            (Reply accepting_reply) [Reply queued_reply, ConnectionError] demo_world)
        = Some (Inl (HordeException msg))"
    using horde_errors_are_horde_exceptions [of "Reply accepting_reply" "JStr ''job-1''"
         "[queued_reply]" "[Reply queued_reply, ConnectionError]" ConnectionError "[]"
         demo_ext demo_backend "[1, 2]" 80 demo_settings False 1 None demo_world] a q c
    by simp
  have 3: "\<exists>msg. fst (horde_raw_generate demo_ext demo_backend [1, 2] 80 demo_settings False 1 None
            (Reply no_worker_reply) [] demo_world)
        = Some (Inl (HordeException msg))"
    using horde_errors_are_horde_exceptions [of "Reply no_worker_reply" undefined
         "[]" "[]" undefined "[]"
         demo_ext demo_backend "[1, 2]" 80 demo_settings False 1 None demo_world] s
    by simp
  from a q f c s 1 2 3 show ?thesis by blast
qed

subsection \<open>Model discovery\<close>

text \<open>
  Claim C6. When the request of the model list raises, or its status is not \<open>ok\<close>,
  or its body is not JSON, the constructor does not return an adapter: an exception
  leaves \<open>__init__\<close>. In the first two cases it is the \<open>NameError\<close> of the unbound
  \<open>emit\<close> (or the \<open>JSONDecodeError\<close> of the body that is logged first), in the third
  the \<open>JSONDecodeError\<close> of \<open>req.json()\<close>. An adapter that is returned always has
  its list of models.
\<close>

theorem horde_init_failure_is_fatal:
  "(discovery_failure outcome \<longrightarrow> (\<exists>e. fst (horde_init ext outcome w) = Inl e))
   \<and> (\<forall>backend. fst (horde_init ext outcome w) = Inr backend \<longrightarrow> models backend \<noteq> None)"
proof -
  define self where "self = \<lparr>url = ''https://horde.koboldai.net'', key = ''0000000000'', models = None\<rparr>"
  have i: "horde_init ext outcome w =
     (case get_cluster_models ext self outcome w of
           (Inl e, w') \<Rightarrow> (Inl e, w')
         | (Inr ms, w') \<Rightarrow> (Inr (self\<lparr>models := ms\<rparr>), w'))"
    unfolding horde_init_def Let_def self_def ..
  have "\<exists>e. fst (horde_init ext outcome w) = Inl e" if "discovery_failure outcome"
    using get_cluster_models_failure [OF that, of ext self w] unfolding i
    by (cases "get_cluster_models ext self outcome w") auto
  moreover have "models backend \<noteq> None" if "fst (horde_init ext outcome w) = Inr backend" for backend
    using that get_cluster_models_list [of ext self outcome w] unfolding i
    by (cases "get_cluster_models ext self outcome w") (auto split: sum.splits)
  ultimately show ?thesis by blast
qed

theorem horde_init_failure_is_fatal_witness:
  "discovery_failure ConnectionError \<and> discovery_failure (Reply server_error_reply)
   \<and> fst (horde_init demo_ext ConnectionError demo_world) = Inl (NameError ''emit'')
   \<and> fst (horde_init demo_ext (Reply server_error_reply) demo_world) = Inl JSONDecodeError"
proof -
  have a: "discovery_failure ConnectionError" by (simp add: discovery_failure_def)
  have b: "discovery_failure (Reply server_error_reply)"
    by (simp add: discovery_failure_def server_error_reply_def ok_def)
  have c: "fst (horde_init demo_ext ConnectionError demo_world) = Inl (NameError ''emit'')
         \<or> (\<forall>e. fst (horde_init demo_ext ConnectionError demo_world) \<noteq> Inl e)"
    by (simp add: horde_init_def get_cluster_models_def emit_def Let_def)
  have d: "fst (horde_init demo_ext (Reply server_error_reply) demo_world) = Inl JSONDecodeError
         \<or> (\<forall>e. fst (horde_init demo_ext (Reply server_error_reply) demo_world) \<noteq> Inl e)"
    by (simp add: horde_init_def get_cluster_models_def emit_def Let_def server_error_reply_def ok_def)
  from horde_init_failure_is_fatal [of ConnectionError demo_ext demo_world] a c
       horde_init_failure_is_fatal [of "Reply server_error_reply" demo_ext demo_world] b d
  show ?thesis by blast
qed

end
